theory Spec2Isabelle
  imports Complex_Main "HOL-Library.AList"
begin

section \<open>Decimal numbers of the standard library, as \<open>templates.py\<close> uses them\<close>

text \<open>
  \<open>templates.py\<close> computes every monetary figure with \<open>decimal.Decimal\<close>. A finite
  \<open>Decimal\<close> is a sign, a coefficient (a string of digits without leading zeros, here the
  natural number it denotes) and an exponent: its value is \<open>(-1)^sign * coeff * 10^exp\<close>.
  Negative zero is a value of its own. NaN and the infinities are not modelled, and the
  exponent limits of the default context (\<open>Emax\<close>, \<open>Emin\<close>) are taken as never reached.
  The default context has a precision of 28 significant digits and rounds half-even.
\<close>

datatype decimal = Dec (dsign: bool) (dcoeff: nat) (dexp: int)

datatype rounding = ROUND_HALF_UP | ROUND_HALF_EVEN

datatype error = InvalidOperation | DivisionByZero | AttributeError

definition prec :: nat where
  "prec = 28"

definition digit_char :: "nat \<Rightarrow> char" where
  "digit_char n = ''0123456789'' ! n"

text \<open>\<open>str(n)\<close> for a natural number: its decimal digits.\<close>

fun str_nat :: "nat \<Rightarrow> string" where
  "str_nat n = (if n < 10 then [digit_char n] else str_nat (n div 10) @ [digit_char (n mod 10)])"

declare str_nat.simps [simp del]

text \<open>\<open>len(self._int)\<close>: the number of digits of the coefficient.\<close>

definition ndigits :: "nat \<Rightarrow> nat" where
  "ndigits c = length (str_nat c)"

text \<open>\<open>Decimal.adjusted()\<close>: the exponent of the most significant digit.\<close>

definition adjusted :: "decimal \<Rightarrow> int" where
  "adjusted d = dexp d + int (ndigits (dcoeff d)) - 1"

text \<open>\<open>Decimal.__bool__\<close>: a decimal is falsy exactly when it is a zero.\<close>

definition dec_truthy :: "decimal \<Rightarrow> bool" where
  "dec_truthy d = (dcoeff d \<noteq> 0)"

text \<open>
  The rounding functions \<open>_round_half_up\<close> and \<open>_round_half_even\<close> look at the digits
  that are dropped. With \<open>q\<close> the kept digits, \<open>r\<close> the dropped digits and \<open>p = 10^k\<close>
  for \<open>k\<close> dropped digits, the first dropped digit is in \<open>'56789'\<close> exactly when
  \<open>p \<le> 2 * r\<close>, and the dropped digits are an exact half when \<open>2 * r = p\<close>. The result
  says whether the kept coefficient is incremented.
\<close>

fun round_up :: "rounding \<Rightarrow> nat \<Rightarrow> nat \<Rightarrow> nat \<Rightarrow> bool" where
  "round_up ROUND_HALF_UP q r p = (p \<le> 2 * r)"
| "round_up ROUND_HALF_EVEN q r p = (if 2 * r = p \<and> even q then False else p \<le> 2 * r)"

text \<open>\<open>Decimal._rescale(exp, rounding)\<close>: pad with zeros or drop digits and round.\<close>

definition rescale :: "decimal \<Rightarrow> int \<Rightarrow> rounding \<Rightarrow> decimal" where
  "rescale d e rnd =
     (if dcoeff d = 0 then Dec (dsign d) 0 e
      else if e \<le> dexp d then Dec (dsign d) (dcoeff d * 10 ^ nat (dexp d - e)) e
      else let p = 10 ^ nat (e - dexp d);
               q = dcoeff d div p;
               r = dcoeff d mod p
           in Dec (dsign d) (if round_up rnd q r p then q + 1 else q) e)"

text \<open>
  \<open>Decimal._fix(context)\<close> in the default context: a coefficient of more than 28 digits is
  rounded half-even to 28 digits; when the increment carries into a 29th digit the last
  digit is dropped and the exponent raised.
\<close>

definition dec_fix :: "decimal \<Rightarrow> decimal" where
  "dec_fix d =
     (if dcoeff d = 0 \<or> ndigits (dcoeff d) \<le> prec then d
      else let k = ndigits (dcoeff d) - prec;
               p = 10 ^ k;
               q = dcoeff d div p;
               r = dcoeff d mod p
           in if round_up ROUND_HALF_EVEN q r p
              then (if prec < ndigits (q + 1)
                    then Dec (dsign d) ((q + 1) div 10) (dexp d + int k + 1)
                    else Dec (dsign d) (q + 1) (dexp d + int k))
              else Dec (dsign d) q (dexp d + int k))"

text \<open>
  \<open>Decimal.quantize(exp, rounding)\<close>: only the exponent of \<open>exp\<close> is used. It raises
  \<open>InvalidOperation\<close> when the result would have more digits than the context precision.
\<close>

definition quantize :: "decimal \<Rightarrow> decimal \<Rightarrow> rounding \<Rightarrow> error + decimal" where
  "quantize d ex rnd =
     (if dcoeff d = 0 then Inr (dec_fix (Dec (dsign d) 0 (dexp ex)))
      else if int prec < adjusted d - dexp ex + 1 then Inl InvalidOperation
      else let ans = rescale d (dexp ex) rnd
           in if prec < ndigits (dcoeff ans) then Inl InvalidOperation
              else Inr (dec_fix ans))"

text \<open>
  \<open>Decimal.__add__\<close>. The operands are aligned to the smaller exponent, added as signed
  integers, and the result is fixed to the context precision. (The library replaces an
  operand that is too small to matter by a sticky digit first; the rounded result is the
  same.) A zero result of operands of opposite sign is positive; two zeros give a
  negative zero only when both are negative.
\<close>

definition dec_add :: "decimal \<Rightarrow> decimal \<Rightarrow> decimal" where
  "dec_add a b =
     (let e = min (dexp a) (dexp b) in
      if dcoeff a = 0 \<and> dcoeff b = 0 then dec_fix (Dec (dsign a \<and> dsign b) 0 e)
      else if dcoeff a = 0
        then dec_fix (rescale b (max e (dexp b - int prec - 1)) ROUND_HALF_EVEN)
      else if dcoeff b = 0
        then dec_fix (rescale a (max e (dexp a - int prec - 1)) ROUND_HALF_EVEN)
      else let ia = dcoeff a * 10 ^ nat (dexp a - e);
               ib = dcoeff b * 10 ^ nat (dexp b - e)
           in if dsign a \<noteq> dsign b
              then (if ia = ib then dec_fix (Dec False 0 e)
                    else if ia < ib then dec_fix (Dec (dsign b) (ib - ia) e)
                    else dec_fix (Dec (dsign a) (ia - ib) e))
              else dec_fix (Dec (dsign a) (ia + ib) e))"

text \<open>\<open>Decimal.__mul__\<close>.\<close>

definition dec_mul :: "decimal \<Rightarrow> decimal \<Rightarrow> decimal" where
  "dec_mul a b = dec_fix (Dec (dsign a \<noteq> dsign b) (dcoeff a * dcoeff b) (dexp a + dexp b))"

text \<open>
  The loop of \<open>Decimal.__truediv__\<close> that brings an exact quotient as close to the ideal
  exponent as its trailing zeros allow.
\<close>

function strip_zeros :: "nat \<Rightarrow> int \<Rightarrow> int \<Rightarrow> nat \<times> int" where
  "strip_zeros coeff expo ideal_exp =
     (if expo < ideal_exp \<and> coeff mod 10 = 0
      then strip_zeros (coeff div 10) (expo + 1) ideal_exp
      else (coeff, expo))"
  by pat_completeness auto
termination
  by (relation "measure (\<lambda>(coeff, expo, ideal_exp). nat (ideal_exp - expo))") simp_all

declare strip_zeros.simps [simp del]

text \<open>\<open>Decimal.__truediv__\<close>.\<close>

definition dec_div :: "decimal \<Rightarrow> decimal \<Rightarrow> error + decimal" where
  "dec_div a b =
     (let sign = (dsign a \<noteq> dsign b) in
      if dcoeff b = 0 then (if dcoeff a = 0 then Inl InvalidOperation else Inl DivisionByZero)
      else if dcoeff a = 0 then Inr (dec_fix (Dec sign 0 (dexp a - dexp b)))
      else let shift = int (ndigits (dcoeff b)) - int (ndigits (dcoeff a)) + int prec + 1;
               expo = dexp a - dexp b - shift;
               num = (if 0 \<le> shift then dcoeff a * 10 ^ nat shift else dcoeff a);
               den = (if 0 \<le> shift then dcoeff b else dcoeff b * 10 ^ nat (- shift));
               coeff = num div den;
               remainder = num mod den
           in if remainder \<noteq> 0
              then Inr (dec_fix (Dec sign (if coeff mod 5 = 0 then coeff + 1 else coeff) expo))
              else (case strip_zeros coeff expo (dexp a - dexp b) of
                      (coeff', expo') \<Rightarrow> Inr (dec_fix (Dec sign coeff' expo'))))"

text \<open>
  \<open>'{0:.2f}'.format(d)\<close> for a decimal \<open>d\<close> (\<open>Decimal.__format__\<close>): the number is
  rescaled to two places with the rounding of the context (half-even), and the digits are
  split at the decimal point.
\<close>

definition format_2f :: "decimal \<Rightarrow> string" where
  "format_2f d =
     (let r = rescale d (- 2) ROUND_HALF_EVEN;
          digits = str_nat (dcoeff r);
          dotplace = dexp r + int (length digits);
          intpart = (if dotplace < 0 then ''0''
                     else if take (nat dotplace) digits = [] then ''0''
                     else take (nat dotplace) digits);
          fracpart = (if dotplace < 0 then replicate (nat (- dotplace)) CHR ''0'' @ digits
                      else drop (nat dotplace) digits)
      in (if dsign r then ''-'' else []) @ intpart @ ''.'' @ fracpart)"

text \<open>\<open>str(i)\<close> for an integer, and \<open>'%+d' % i\<close>.\<close>

definition str_int :: "int \<Rightarrow> string" where
  "str_int i = (if i < 0 then ''-'' @ str_nat (nat (- i)) else str_nat (nat i))"

definition str_plus_d :: "int \<Rightarrow> string" where
  "str_plus_d i = (if i < 0 then ''-'' @ str_nat (nat (- i)) else ''+'' @ str_nat (nat i))"

text \<open>\<open>str(d)\<close> for a decimal (\<open>Decimal.__str__\<close>, scientific notation when needed).\<close>

definition str_decimal :: "decimal \<Rightarrow> string" where
  "str_decimal d =
     (let digits = str_nat (dcoeff d);
          len = int (length digits);
          leftdigits = dexp d + len;
          dotplace = (if dexp d \<le> 0 \<and> - 6 < leftdigits then leftdigits else 1);
          intpart = (if dotplace \<le> 0 then ''0''
                     else if len \<le> dotplace
                       then digits @ replicate (nat (dotplace - len)) CHR ''0''
                     else take (nat dotplace) digits);
          fracpart = (if dotplace \<le> 0
                        then ''.'' @ replicate (nat (- dotplace)) CHR ''0'' @ digits
                      else if len \<le> dotplace then []
                      else ''.'' @ drop (nat dotplace) digits);
          expo = (if leftdigits = dotplace then []
                 else ''E'' @ str_plus_d (leftdigits - dotplace))
      in (if dsign d then ''-'' else []) @ intpart @ fracpart @ expo)"

section \<open>MoneyRounder: \<open>getroundeddecimal\<close>\<close>

text \<open>
  \<open>getroundeddecimal(nrtoround, precision)\<close>. Both arguments are the decimals that
  \<open>Decimal(nrtoround)\<close> and \<open>Decimal(precision)\<close> construct; the default precision is
  \<open>Decimal('0.01')\<close>.
\<close>

definition getroundeddecimal :: "decimal \<Rightarrow> decimal \<Rightarrow> error + decimal" where
  "getroundeddecimal nrtoround precision =
     (let d = nrtoround;
          aftercomma = precision
      in quantize d aftercomma ROUND_HALF_UP)"

definition default_precision :: decimal where
  "default_precision = Dec False 1 (- 2)"

section \<open>Values, entities and content blocks\<close>

text \<open>
  Attribute values of the entities: \<open>None\<close>, booleans, integers, strings, dates and
  datetimes. \<open>datetime\<close> is a subclass of \<open>date\<close>, here a record extension.
\<close>

record date =
  year :: nat
  month :: nat
  day :: nat

record datetime = date +
  hour :: nat
  minute :: nat
  second :: nat

datatype pyval = PNone | PBool bool | PInt int | PStr string | PDate date | PDatetime datetime

text \<open>Truthiness of a value (\<open>if attr:\<close>); dates and datetimes are always truthy.\<close>

fun truthy :: "pyval \<Rightarrow> bool" where
  "truthy PNone = False"
| "truthy (PBool b) = b"
| "truthy (PInt i) = (i \<noteq> 0)"
| "truthy (PStr s) = (s \<noteq> [])"
| "truthy (PDate d) = True"
| "truthy (PDatetime d) = True"

text \<open>
  \<open>strftime\<close> with the two patterns of \<open>_format_value\<close>: \<open>%Y\<close> is the year padded with
  zeros to four digits, \<open>%m\<close>, \<open>%d\<close>, \<open>%H\<close> and \<open>%M\<close> are padded to two digits.
\<close>

definition zfill :: "nat \<Rightarrow> string \<Rightarrow> string" where
  "zfill width s = replicate (width - length s) CHR ''0'' @ s"

definition strftime_date :: "'a date_scheme \<Rightarrow> string" where
  "strftime_date v =
     zfill 4 (str_nat (year v)) @ ''-'' @ zfill 2 (str_nat (month v)) @ ''-''
       @ zfill 2 (str_nat (day v))"

definition strftime_datetime :: "'a datetime_scheme \<Rightarrow> string" where
  "strftime_datetime v =
     zfill 4 (str_nat (year v)) @ ''-'' @ zfill 2 (str_nat (month v)) @ ''-''
       @ zfill 2 (str_nat (day v)) @ '' '' @ zfill 2 (str_nat (hour v)) @ '':''
       @ zfill 2 (str_nat (minute v))"

text \<open>\<open>_format_value\<close>: the \<open>datetime\<close> test comes first, then the \<open>date\<close> test.\<close>

fun format_value :: "pyval \<Rightarrow> pyval" where
  "format_value (PDatetime v) = PStr (strftime_datetime v)"
| "format_value (PDate v) = PStr (strftime_date v)"
| "format_value v = v"

text \<open>
  The entity classes (\<open>InvoiceInfo\<close>, \<open>ServiceProviderInfo\<close>, \<open>ClientInfo\<close>) live in
  \<open>pyinvoice.models\<close>; \<open>templates.py\<close> reads them only with \<open>getattr\<close>, so an instance
  is its attribute dictionary. \<open>getattr\<close> raises \<open>AttributeError\<close> for a missing name.
\<close>

type_synonym entity = "(string \<times> pyval) list"

definition getattr :: "entity \<Rightarrow> string \<Rightarrow> error + pyval" where
  "getattr instance property_name =
     (case map_of instance property_name of None \<Rightarrow> Inl AttributeError | Some v \<Rightarrow> Inr v)"

text \<open>Line items and transactions, with the fields \<open>templates.py\<close> reads.\<close>

record Item =
  name :: string
  description :: string
  units :: int
  unit_price :: decimal
  amount :: decimal

record Transaction =
  transaction_id :: string
  gateway :: string
  transaction_datetime :: pyval
  amount :: decimal

text \<open>
  What a caller can pass to \<open>add_item\<close> and \<open>add_transaction\<close> or store in the entity
  attributes of the document: the \<open>isinstance\<close> tests of the source tell the classes apart.
\<close>

datatype pyobj =
    ObjNone
  | ObjItem Item
  | ObjTransaction Transaction
  | ObjInvoiceInfo entity
  | ObjServiceProviderInfo entity
  | ObjClientInfo entity
  | ObjOther pyval

fun isinstance_Item :: "pyobj \<Rightarrow> bool" where
  "isinstance_Item (ObjItem i) = True"
| "isinstance_Item obj = False"

fun isinstance_Transaction :: "pyobj \<Rightarrow> bool" where
  "isinstance_Transaction (ObjTransaction t) = True"
| "isinstance_Transaction obj = False"

fun isinstance_ServiceProviderInfo :: "pyobj \<Rightarrow> bool" where
  "isinstance_ServiceProviderInfo (ObjServiceProviderInfo e) = True"
| "isinstance_ServiceProviderInfo obj = False"

fun isinstance_ClientInfo :: "pyobj \<Rightarrow> bool" where
  "isinstance_ClientInfo (ObjClientInfo e) = True"
| "isinstance_ClientInfo obj = False"

text \<open>
  The tax rate is only used through \<open>str(rate)\<close>: in \<open>Decimal(str(rate))\<close> and in the
  label \<open>'Vat/Tax ({0}%)'.format(rate)\<close>. It is an integer or a decimal.
\<close>

datatype rate = RateInt int | RateDecimal decimal

fun str_rate :: "rate \<Rightarrow> string" where
  "str_rate (RateInt i) = str_int i"
| "str_rate (RateDecimal d) = str_decimal d"

text \<open>\<open>Decimal(str(rate))\<close>: the decimal that the string of the rate denotes.\<close>

fun decimal_of_rate :: "rate \<Rightarrow> decimal" where
  "decimal_of_rate (RateInt i) = Dec (i < 0) (nat \<bar>i\<bar>) 0"
| "decimal_of_rate (RateDecimal d) = d"

text \<open>
  Content blocks of the story and the cells of their tables. A cell is a value, a
  paragraph, or the text \<open>'{0:.2f}'.format(float(x))\<close>, which is kept symbolic (binary
  floating point is outside this model).
\<close>

datatype alignment = TA_LEFT | TA_CENTER | TA_RIGHT | TA_JUSTIFY

datatype pstyle = Heading1 | RightHeading1 | TableParagraph | BottomTip "alignment option"

datatype cell = CVal pyval | CParagraph string pstyle | CFloat2f decimal

type_synonym row = "cell list"

datatype color = gray

datatype style_cmd =
    SPAN "int \<times> int" "int \<times> int"
  | ALIGN "int \<times> int" "int \<times> int" string
  | LINEBELOW "int \<times> int" "int \<times> int" nat color
  | LEFTPADDING "int \<times> int" "int \<times> int" nat

record image =
  filename :: string
  hAlign :: string
  vAlign :: string

datatype flowable =
    Paragraph string pstyle
  | SimpleTable "row list" string
  | TableWithHeader "row list" string "style_cmd list option"
  | Table "row list" "style_cmd list"
  | Spacer nat nat
  | Image image

text \<open>\<open>PaidStamp(x, y)\<close>, with the offsets in inches.\<close>

datatype decoration = PaidStamp int int

section \<open>The document: \<open>SimpleInvoice\<close>\<close>

text \<open>
  The attributes of \<open>SimpleInvoice\<close> that \<open>templates.py\<close> sets in \<open>__init__\<close>. Private
  attributes and methods lose their leading underscore (\<open>_items\<close> is \<open>items\<close>,
  \<open>_build_items\<close> is \<open>build_items\<close>). \<open>precision\<close> holds the decimal that
  \<open>Decimal(precision)\<close> constructs from the attribute.
\<close>

record SimpleInvoice =
  precision :: decimal
  invoice_info :: pyobj
  service_provider_info :: pyobj
  client_info :: pyobj
  is_paid :: bool
  items :: "pyobj list"
  item_tax_rate :: "rate option"
  transactions :: "pyobj list"
  story :: "flowable list"
  bottom_tip :: "string option"
  bottom_tip_align :: "alignment option"
  logo :: "image option"
  build_kwargs :: "(string \<times> decoration) list"

text \<open>The state \<open>__init__\<close> leaves, for a precision.\<close>

definition init :: "decimal \<Rightarrow> SimpleInvoice" where
  "init p =
     \<lparr> precision = p, invoice_info = ObjNone, service_provider_info = ObjNone,
       client_info = ObjNone, is_paid = False, items = [], item_tax_rate = None,
       transactions = [], story = [], bottom_tip = None, bottom_tip_align = None,
       logo = None, build_kwargs = [] \<rparr>"

definition add_item :: "SimpleInvoice \<Rightarrow> pyobj \<Rightarrow> SimpleInvoice" where
  "add_item self item =
     (if isinstance_Item item then self\<lparr>items := items self @ [item]\<rparr> else self)"

definition set_item_tax_rate :: "SimpleInvoice \<Rightarrow> rate option \<Rightarrow> SimpleInvoice" where
  "set_item_tax_rate self r = self\<lparr>item_tax_rate := r\<rparr>"

definition add_transaction :: "SimpleInvoice \<Rightarrow> pyobj \<Rightarrow> SimpleInvoice" where
  "add_transaction self t =
     (if isinstance_Transaction t then self\<lparr>transactions := transactions self @ [t]\<rparr>
      else self)"

definition set_bottom_tip :: "SimpleInvoice \<Rightarrow> string option \<Rightarrow> alignment \<Rightarrow> SimpleInvoice" where
  "set_bottom_tip self text' align =
     self\<lparr>bottom_tip := text', bottom_tip_align := Some align\<rparr>"

section \<open>Sparse attribute tables\<close>

text \<open>
  \<open>_attribute_to_table_data\<close>: the loop appends one row to \<open>data\<close> for every attribute
  that is truthy. \<open>'{0}:'.format(verbose_name)\<close> is the label followed by a colon.
\<close>

fun attribute_loop :: "entity \<Rightarrow> (string \<times> string) list \<Rightarrow> row list \<Rightarrow> error + row list" where
  "attribute_loop instance [] data = Inr data"
| "attribute_loop instance ((property_name, verbose_name) # rest) data =
     (case getattr instance property_name of
        Inl e \<Rightarrow> Inl e
      | Inr attr \<Rightarrow>
          if truthy attr
          then attribute_loop instance rest
                 (data @ [[CVal (PStr (verbose_name @ '':'')), CVal (format_value attr)]])
          else attribute_loop instance rest data)"

definition attribute_to_table_data :: "entity \<Rightarrow> (string \<times> string) list \<Rightarrow> error + row list" where
  "attribute_to_table_data instance attribute_verbose_name_list =
     attribute_loop instance attribute_verbose_name_list []"

definition invoice_info_props :: "(string \<times> string) list" where
  "invoice_info_props =
     [(''invoice_id'', ''Invoice id''), (''invoice_datetime'', ''Invoice date''),
      (''due_datetime'', ''Invoice due date'')]"

definition invoice_info_data :: "SimpleInvoice \<Rightarrow> error + row list" where
  "invoice_info_data self =
     (case invoice_info self of
        ObjInvoiceInfo e \<Rightarrow> attribute_to_table_data e invoice_info_props
      | _ \<Rightarrow> Inr [])"

definition build_invoice_info :: "SimpleInvoice \<Rightarrow> error + SimpleInvoice" where
  "build_invoice_info self =
     (case invoice_info_data self of
        Inl e \<Rightarrow> Inl e
      | Inr invoice_info_data' \<Rightarrow>
          if invoice_info_data' \<noteq> []
          then Inr (self\<lparr>story := story self @
                      [Paragraph ''Invoice'' RightHeading1,
                       SimpleTable invoice_info_data' ''RIGHT'']\<rparr>)
          else Inr self)"

definition service_provider_props :: "(string \<times> string) list" where
  "service_provider_props =
     [(''name'', ''Name''), (''street'', ''Street''), (''city'', ''City''),
      (''state'', ''State''), (''country'', ''Country''), (''post_code'', ''Post code''),
      (''vat_tax_number'', ''Vat/Tax number'')]"

definition service_provider_data :: "SimpleInvoice \<Rightarrow> error + row list" where
  "service_provider_data self =
     (case service_provider_info self of
        ObjServiceProviderInfo e \<Rightarrow> attribute_to_table_data e service_provider_props
      | _ \<Rightarrow> Inr [])"

definition build_service_provider_info :: "SimpleInvoice \<Rightarrow> error + SimpleInvoice" where
  "build_service_provider_info self =
     (case service_provider_data self of
        Inl e \<Rightarrow> Inl e
      | Inr service_provider_info_data \<Rightarrow>
          if service_provider_info_data \<noteq> []
          then Inr (self\<lparr>story := story self @
                      [Paragraph ''Service Provider'' RightHeading1,
                       SimpleTable service_provider_info_data ''RIGHT'']\<rparr>)
          else Inr self)"

definition client_info_props :: "(string \<times> string) list" where
  "client_info_props =
     [(''name'', ''Name''), (''street'', ''Street''), (''city'', ''City''),
      (''state'', ''State''), (''country'', ''Country''), (''post_code'', ''Post code''),
      (''email'', ''Email''), (''client_id'', ''Client id'')]"

definition client_info_data :: "SimpleInvoice \<Rightarrow> error + row list" where
  "client_info_data self =
     (case client_info self of
        ObjClientInfo e \<Rightarrow> attribute_to_table_data e client_info_props
      | _ \<Rightarrow> Inr [])"

definition build_client_info :: "SimpleInvoice \<Rightarrow> error + SimpleInvoice" where
  "build_client_info self =
     (case client_info_data self of
        Inl e \<Rightarrow> Inl e
      | Inr client_info_data' \<Rightarrow>
          if client_info_data' \<noteq> []
          then Inr (self\<lparr>story := story self @
                      [Paragraph ''Client'' Heading1,
                       SimpleTable client_info_data' ''LEFT'']\<rparr>)
          else Inr self)"

section \<open>Side-by-side party block\<close>

definition blank :: cell where
  "blank = CVal (PStr [])"

definition merge_header :: row where
  "merge_header =
     [CParagraph ''Service Provider'' Heading1, blank, blank,
      CParagraph ''Client'' Heading1, blank]"

definition merge_table_style :: "style_cmd list" where
  "merge_table_style =
     [SPAN (0, 0) (1, 0), SPAN (3, 0) (4, 0),
      LINEBELOW (0, 0) (1, 0) 1 gray, LINEBELOW (3, 0) (4, 0) 1 gray,
      LEFTPADDING (0, 0) (- 1, - 1) 0]"

text \<open>
  \<open>_build_service_provider_and_client_info\<close>. The client list is extended with
  \<open>[["", ""]] * diff\<close>, that is \<open>diff\<close> rows of two cells; the provider list is extended
  with \<open>[["", ""] * diff]\<close>, that is one row of \<open>2 * diff\<close> cells. \<open>zip\<close> stops at the
  shorter list. The rows that the loop mutates are the provider rows, which are fresh
  lists, so the sharing among the padding rows is not observable.
\<close>

definition build_service_provider_and_client_info :: "SimpleInvoice \<Rightarrow> error + SimpleInvoice" where
  "build_service_provider_and_client_info self =
     (if isinstance_ServiceProviderInfo (service_provider_info self)
         \<and> isinstance_ClientInfo (client_info self)
      then
        (case client_info_data self of
           Inl e \<Rightarrow> Inl e
         | Inr client_info_data' \<Rightarrow>
        (case service_provider_data self of
           Inl e \<Rightarrow> Inl e
         | Inr service_provider_data' \<Rightarrow>
             let diff = nat \<bar>int (length client_info_data') - int (length service_provider_data')\<bar>;
                 client_rows =
                   (if 0 < diff \<and> length client_info_data' < length service_provider_data'
                    then client_info_data' @ replicate diff [blank, blank]
                    else client_info_data');
                 provider_rows =
                   (if 0 < diff \<and> \<not> length client_info_data' < length service_provider_data'
                    then service_provider_data' @ [concat (replicate diff [blank, blank])]
                    else service_provider_data');
                 table_data = [merge_header] @
                   map (\<lambda>d. fst d @ [blank] @ snd d) (zip provider_rows client_rows)
             in Inr (self\<lparr>story := story self @ [Table table_data merge_table_style]\<rparr>)))
      else
        (case build_service_provider_info self of
           Inl e \<Rightarrow> Inl e
         | Inr self' \<Rightarrow> build_client_info self'))"

section \<open>Items block and financial summary\<close>

text \<open>
  \<open>_item_raw_data_and_subtotal\<close>. \<open>item_subtotal\<close> starts as the integer \<open>0\<close>, which the
  first addition converts to \<open>Decimal(0)\<close>.
\<close>

definition item_row :: "Item \<Rightarrow> row" where
  "item_row item =
     [CVal (PStr (name item)), CParagraph (description item) TableParagraph,
      CVal (PInt (units item)), CFloat2f (unit_price item),
      CVal (PStr (format_2f (Item.amount item)))]"

fun item_loop :: "pyobj list \<Rightarrow> row list \<Rightarrow> decimal \<Rightarrow> row list \<times> decimal" where
  "item_loop [] item_data item_subtotal = (item_data, item_subtotal)"
| "item_loop (ObjItem item # rest) item_data item_subtotal =
     item_loop rest (item_data @ [item_row item]) (dec_add item_subtotal (Item.amount item))"
| "item_loop (obj # rest) item_data item_subtotal = item_loop rest item_data item_subtotal"

definition item_raw_data_and_subtotal :: "SimpleInvoice \<Rightarrow> row list \<times> decimal" where
  "item_raw_data_and_subtotal self = item_loop (items self) [] (Dec False 0 0)"

definition item_data_title :: row where
  "item_data_title =
     [CVal (PStr ''Name''), CVal (PStr ''Description''), CVal (PStr ''Units''),
      CVal (PStr ''Unit Price''), CVal (PStr ''Amount'')]"

definition summary_row :: "string \<Rightarrow> decimal \<Rightarrow> row" where
  "summary_row label v = [CVal (PStr label), blank, blank, blank, CVal (PStr (format_2f v))]"

text \<open>
  \<open>_item_data_and_style\<close>. It returns the rows and the style, and it appends the heading
  \<open>Detail\<close> to the story, so the document is returned as well. The three roundings can
  raise.
\<close>

definition item_data_and_style ::
    "SimpleInvoice \<Rightarrow> error + (row list \<times> style_cmd list \<times> SimpleInvoice)" where
  "item_data_and_style self =
     (case item_raw_data_and_subtotal self of (item_data, item_subtotal) \<Rightarrow>
      if item_data = [] then Inr (item_data, [], self)
      else
        let self' = self\<lparr>story := story self @ [Paragraph ''Detail'' Heading1]\<rparr>;
            item_data1 = item_data_title # item_data;
            sum_start_y_index = int (length item_data1);
            sum_end_x_index = - 1 - 1;
            sum_start_x_index = int (length item_data_title) - \<bar>sum_end_x_index\<bar>
        in
        (case getroundeddecimal item_subtotal (precision self) of
           Inl e \<Rightarrow> Inl e
         | Inr rounditem_subtotal \<Rightarrow>
        let item_data2 = item_data1 @ [summary_row ''Subtotal'' rounditem_subtotal];
            style1 = [SPAN (0, sum_start_y_index) (sum_start_x_index, sum_start_y_index),
                      ALIGN (0, sum_start_y_index) (sum_end_x_index, - 1) ''RIGHT'']
        in
        (case
           (case item_tax_rate self of
              Some r \<Rightarrow>
                (case dec_div (decimal_of_rate r) (Dec False 100 0) of
                   Inl e \<Rightarrow> Inl e
                 | Inr fraction \<Rightarrow>
                     let tax_total = dec_mul item_subtotal fraction in
                     (case getroundeddecimal tax_total (precision self) of
                        Inl e \<Rightarrow> Inl e
                      | Inr roundtax_total \<Rightarrow>
                          Inr (item_data2 @
                                 [summary_row (''Vat/Tax ('' @ str_rate r @ ''%)'') roundtax_total],
                               sum_start_y_index + 1,
                               style1 @
                                 [SPAN (0, sum_start_y_index + 1)
                                    (sum_start_x_index, sum_start_y_index + 1),
                                  ALIGN (0, sum_start_y_index + 1) (sum_end_x_index, - 1)
                                    ''RIGHT''],
                               Some tax_total)))
            | None \<Rightarrow> Inr (item_data2, sum_start_y_index, style1, None))
         of
           Inl e \<Rightarrow> Inl e
         | Inr (item_data3, sum_start_y_index3, style3, tax_total) \<Rightarrow>
             let total = dec_add item_subtotal
                   (case tax_total of
                      Some t \<Rightarrow> if dec_truthy t then t else Dec False 0 0
                    | None \<Rightarrow> Dec False 0 0)
             in
             (case getroundeddecimal total (precision self) of
                Inl e \<Rightarrow> Inl e
              | Inr roundtotal \<Rightarrow>
                  Inr (item_data3 @ [summary_row ''Total'' roundtotal],
                       style3 @
                         [SPAN (0, sum_start_y_index3 + 1)
                            (sum_start_x_index, sum_start_y_index3 + 1),
                          ALIGN (0, sum_start_y_index3 + 1) (sum_end_x_index, - 1) ''RIGHT''],
                       self')))))"

definition build_items :: "SimpleInvoice \<Rightarrow> error + SimpleInvoice" where
  "build_items self =
     (case item_data_and_style self of
        Inl e \<Rightarrow> Inl e
      | Inr (item_data, style, self') \<Rightarrow>
          if item_data \<noteq> []
          then Inr (self'\<lparr>story := story self' @
                      [TableWithHeader item_data ''LEFT'' (Some style)]\<rparr>)
          else Inr self')"

section \<open>Transactions block, bottom tip, logo and paid stamp\<close>

definition transaction_row :: "Transaction \<Rightarrow> row" where
  "transaction_row t =
     [CVal (PStr (transaction_id t)), CParagraph (gateway t) TableParagraph,
      CVal (format_value (transaction_datetime t)),
      CVal (PStr (format_2f (Transaction.amount t)))]"

definition transactions_title :: row where
  "transactions_title =
     [CVal (PStr ''Transaction id''), CVal (PStr ''Gateway''),
      CVal (PStr ''Transaction date''), CVal (PStr ''Amount'')]"

definition transactions_data :: "SimpleInvoice \<Rightarrow> row list" where
  "transactions_data self =
     (let transaction_table_data =
            concat (map (\<lambda>t. case t of ObjTransaction tr \<Rightarrow> [transaction_row tr] | _ \<Rightarrow> [])
                      (transactions self))
      in if transaction_table_data \<noteq> [] then transactions_title # transaction_table_data
         else transaction_table_data)"

definition build_transactions :: "SimpleInvoice \<Rightarrow> SimpleInvoice" where
  "build_transactions self =
     (let transaction_table_data = transactions_data self
      in if transaction_table_data \<noteq> []
         then self\<lparr>story := story self @
                [Paragraph ''Transaction'' Heading1,
                 TableWithHeader transaction_table_data ''LEFT'' None]\<rparr>
         else self)"

definition build_bottom_tip :: "SimpleInvoice \<Rightarrow> SimpleInvoice" where
  "build_bottom_tip self =
     (case bottom_tip self of
        Some tip \<Rightarrow>
          if tip \<noteq> []
          then self\<lparr>story := story self @
                 [Spacer 5 5, Paragraph tip (BottomTip (bottom_tip_align self))]\<rparr>
          else self
      | None \<Rightarrow> self)"

definition build_logo :: "SimpleInvoice \<Rightarrow> SimpleInvoice" where
  "build_logo self =
     (case logo self of
        Some l \<Rightarrow>
          let l' = l\<lparr>hAlign := ''LEFT'', vAlign := ''TOP''\<rparr>
          in self\<lparr>logo := Some l', story := story self @ [Image l']\<rparr>
      | None \<Rightarrow> self)"

definition build_paid_stamp :: "SimpleInvoice \<Rightarrow> SimpleInvoice" where
  "build_paid_stamp self =
     (if is_paid self
      then self\<lparr>build_kwargs :=
             AList.update ''onFirstPage'' (PaidStamp 3 (- 2)) (build_kwargs self)\<rparr>
      else self)"

section \<open>DocumentAssembler: \<open>finish\<close>\<close>

text \<open>
  \<open>finish\<close> runs the builders in order and hands \<open>_story\<close> and \<open>_build_kwargs\<close> to the
  rendering engine; the result is the document as \<open>build\<close> receives it.
\<close>

definition finish :: "SimpleInvoice \<Rightarrow> error + SimpleInvoice" where
  "finish self =
     (case build_invoice_info (build_logo self) of
        Inl e \<Rightarrow> Inl e
      | Inr self1 \<Rightarrow>
     (case build_service_provider_and_client_info self1 of
        Inl e \<Rightarrow> Inl e
      | Inr self2 \<Rightarrow>
     (case build_items self2 of
        Inl e \<Rightarrow> Inl e
      | Inr self3 \<Rightarrow>
          Inr (build_paid_stamp (build_bottom_tip (build_transactions self3))))))"

section \<open>Vocabulary of the properties\<close>




text \<open>
  The shape of a formatted date: in a pattern the letters \<open>Y\<close>, \<open>M\<close>, \<open>D\<close> and \<open>H\<close> stand
  for one decimal digit each and every other character for itself. \<open>nat_of_digits\<close>
  reads a string of digits back as a number. \<open>valid_date\<close> and \<open>valid_datetime\<close> are the
  ranges that the classes \<open>date\<close> and \<open>datetime\<close> enforce.
\<close>

definition is_digit :: "char \<Rightarrow> bool" where
  "is_digit c = (c \<in> set ''0123456789'')"

fun matches_pattern :: "string \<Rightarrow> string \<Rightarrow> bool" where
  "matches_pattern [] [] = True"
| "matches_pattern (p # ps) (c # cs) =
     ((if p \<in> set ''YMDH'' then is_digit c else c = p) \<and> matches_pattern ps cs)"
| "matches_pattern ps cs = False"

definition nat_of_digits :: "string \<Rightarrow> nat" where
  "nat_of_digits s = foldl (\<lambda>n c. 10 * n + (of_char c - 48)) 0 s"

definition valid_date :: "'a date_scheme \<Rightarrow> bool" where
  "valid_date v = (1 \<le> year v \<and> year v \<le> 9999 \<and> 1 \<le> month v \<and> month v \<le> 12
     \<and> 1 \<le> day v \<and> day v \<le> 31)"

definition valid_datetime :: "'a datetime_scheme \<Rightarrow> bool" where
  "valid_datetime v = (valid_date v \<and> hour v \<le> 23 \<and> minute v \<le> 59 \<and> second v \<le> 59)"

text \<open>
  The sparse rows as the specification words them: one row \<open>[label + ':', formatted value]\<close>
  for each field whose value is truthy, in the order of the field list. \<open>has_attrs\<close> says
  that every listed field is an attribute of the instance.
\<close>

definition attr_value :: "entity \<Rightarrow> string \<Rightarrow> pyval" where
  "attr_value instance property_name =
     (case map_of instance property_name of Some v \<Rightarrow> v | None \<Rightarrow> PNone)"

definition sparse_rows :: "entity \<Rightarrow> (string \<times> string) list \<Rightarrow> row list" where
  "sparse_rows instance props =
     map (\<lambda>(f, l). [CVal (PStr (l @ '':'')), CVal (format_value (attr_value instance f))])
       (filter (\<lambda>(f, l). truthy (attr_value instance f)) props)"

definition has_attrs :: "entity \<Rightarrow> (string \<times> string) list \<Rightarrow> bool" where
  "has_attrs instance props = list_all (\<lambda>(f, l). map_of instance f \<noteq> None) props"

section \<open>Digits of a natural number\<close>

lemma str_nat_small: "n < 10 \<Longrightarrow> str_nat n = [digit_char n]"
  by (simp add: str_nat.simps)

lemma str_nat_large: "10 \<le> n \<Longrightarrow> str_nat n = str_nat (n div 10) @ [digit_char (n mod 10)]"
  by (subst str_nat.simps) simp







lemma digit_cases:
  "d < 10 \<Longrightarrow> d = 0 \<or> d = 1 \<or> d = 2 \<or> d = 3 \<or> d = 4 \<or> d = 5 \<or> d = 6 \<or> d = 7
     \<or> d = 8 \<or> d = (9::nat)"
  by arith

lemma is_digit_digit_char: "d < 10 \<Longrightarrow> is_digit (digit_char d)"
  by (drule digit_cases) (auto simp add: is_digit_def digit_char_def)

lemma digit_char_value: "d < 10 \<Longrightarrow> of_char (digit_char d) - 48 = d"
  by (drule digit_cases) (auto simp add: digit_char_def)

lemma digit_char_0: "digit_char 0 = CHR ''0''"
  by (simp add: digit_char_def)

lemma zfill_2:
  assumes "n < 100"
  shows "zfill 2 (str_nat n) = [digit_char (n div 10), digit_char (n mod 10)]"
proof (cases "n < 10")
  case True
  then show ?thesis by (simp add: str_nat_small zfill_def digit_char_0)
next
  case False
  with assms have "n div 10 < 10" by simp
  with False show ?thesis by (simp add: str_nat_large str_nat_small zfill_def)
qed

lemma zfill_4:
  assumes "n < 10000"
  shows "zfill 4 (str_nat n) =
    [digit_char (n div 1000), digit_char (n div 100 mod 10), digit_char (n div 10 mod 10),
     digit_char (n mod 10)]"
proof -
  consider "n < 10" | "10 \<le> n" "n < 100" | "100 \<le> n" "n < 1000" | "1000 \<le> n"
    by linarith
  then show ?thesis
  proof cases
    case 1
    then show ?thesis by (simp add: str_nat_small zfill_def digit_char_0 numeral_3_eq_3)
  next
    case 2
    then have "n div 10 < 10" by simp
    with 2 show ?thesis
      by (simp add: str_nat_large str_nat_small zfill_def digit_char_0 numeral_2_eq_2 numeral_3_eq_3)
  next
    case 3
    then have a: "10 \<le> n" and b: "10 \<le> n div 10" and c: "n div 10 div 10 < 10" by simp_all
    have "n div 10 div 10 = n div 100" by (simp add: div_mult2_eq [symmetric])
    with a b c 3 show ?thesis
      by (simp add: str_nat_large [of n] str_nat_large [of "n div 10"] str_nat_small zfill_def
            digit_char_0 numeral_2_eq_2 numeral_3_eq_3)
  next
    case 4
    with assms have a: "10 \<le> n" and b: "10 \<le> n div 10" and c: "10 \<le> n div 10 div 10"
      and d: "n div 10 div 10 div 10 < 10" by simp_all
    have e: "n div 10 div 10 = n div 100" "n div 10 div 10 div 10 = n div 1000"
      by (simp_all add: div_mult2_eq [symmetric])
    with a b c d show ?thesis
      by (simp add: str_nat_large [of n] str_nat_large [of "n div 10"]
            str_nat_large [of "n div 100"] str_nat_small zfill_def)
  qed
qed

lemma nat_of_digits_2:
  "a < 10 \<Longrightarrow> b < 10 \<Longrightarrow> nat_of_digits [digit_char a, digit_char b] = 10 * a + b"
  by (simp add: nat_of_digits_def digit_char_value)

lemma nat_of_digits_4:
  "a < 10 \<Longrightarrow> b < 10 \<Longrightarrow> c < 10 \<Longrightarrow> d < 10 \<Longrightarrow>
   nat_of_digits [digit_char a, digit_char b, digit_char c, digit_char d] =
     1000 * a + 100 * b + 10 * c + d"
  by (simp add: nat_of_digits_def digit_char_value)

lemma digits_4_sum:
  "1000 * (n div 1000) + 100 * (n div 100 mod 10) + 10 * (n div 10 mod 10) + n mod 10 = (n::nat)"
proof -
  have "n mod 100 = 10 * (n div 10 mod 10) + n mod 10"
    using mod_mult2_eq [of n 10 10] by simp
  moreover have "n mod 1000 = 100 * (n div 100 mod 10) + n mod 100"
    using mod_mult2_eq [of n 100 10] by simp
  moreover have "n = 1000 * (n div 1000) + n mod 1000" by simp
  ultimately show ?thesis by linarith
qed

lemma digits_2_sum: "10 * (n div 10) + n mod 10 = (n::nat)"
  by simp

section \<open>Rounding half up\<close>





lemma dec_fix_small: "ndigits (dcoeff d) \<le> prec \<Longrightarrow> dec_fix d = d"
  by (simp add: dec_fix_def)

lemma dec_fix_zero: "dec_fix (Dec s 0 e) = Dec s 0 e"
  by (simp add: dec_fix_def)






lemma quantize_idem_aux:
  assumes "quantize x p rnd = Inr y"
  shows "quantize y p rnd = Inr y"
proof (cases "dcoeff x = 0")
  case True
  with assms have y: "y = Dec (dsign x) 0 (dexp p)"
    by (simp add: quantize_def dec_fix_zero)
  show ?thesis by (simp add: y quantize_def dec_fix_zero)
next
  case False
  define ans where "ans = rescale x (dexp p) rnd"
  from assms False have small: "ndigits (dcoeff ans) \<le> prec" and y: "y = ans"
    by (auto simp add: quantize_def Let_def dec_fix_small split: if_splits simp flip: ans_def)
  have e: "dexp ans = dexp p" by (simp add: ans_def rescale_def Let_def)
  show ?thesis
  proof (cases "dcoeff ans = 0")
    case True
    then have "ans = Dec (dsign ans) 0 (dexp p)" using e by (cases ans) simp
    then show ?thesis using True by (simp add: y quantize_def dec_fix_def e)
  next
    case nz: False
    have "rescale ans (dexp p) rnd = ans"
      using nz e by (cases ans) (simp add: rescale_def)
    moreover have "\<not> int prec < adjusted ans - dexp p + 1"
      using small e by (simp add: adjusted_def)
    ultimately show ?thesis using nz small
      by (simp add: y quantize_def dec_fix_small)
  qed
qed

text \<open>
  Claim C4. Rounding at the step \<open>0.01\<close> is idempotent: rounding the rounded value again
  returns it unchanged, and a rounding that raises raises again.
\<close>

theorem getroundeddecimal_idempotent:
  "(case getroundeddecimal x default_precision of
      Inl e \<Rightarrow> Inl e
    | Inr y \<Rightarrow> getroundeddecimal y default_precision) = getroundeddecimal x default_precision"
  by (cases "getroundeddecimal x default_precision")
     (simp_all add: getroundeddecimal_def quantize_idem_aux)

theorem getroundeddecimal_idempotent_witness:
  "getroundeddecimal (Dec False 1005 (- 3)) default_precision = Inr (Dec False 101 (- 2))
   \<and> getroundeddecimal (Dec False 101 (- 2)) default_precision = Inr (Dec False 101 (- 2))"
proof -
  have first: "getroundeddecimal (Dec False 1005 (- 3)) default_precision = Inr (Dec False 101 (- 2))"
    by (simp add: getroundeddecimal_def quantize_def adjusted_def ndigits_def str_nat.simps
          prec_def rescale_def dec_fix_def default_precision_def)
  with getroundeddecimal_idempotent [of "Dec False 1005 (- 3)"] show ?thesis by simp
qed

section \<open>Sparse attribute rows and formatted dates\<close>

lemma strftime_date_shape:
  assumes "valid_date v"
  shows "matches_pattern ''YYYY-MM-DD'' (strftime_date v)"
    and "nat_of_digits (take 4 (strftime_date v)) = year v"
    and "nat_of_digits (take 2 (drop 5 (strftime_date v))) = month v"
    and "nat_of_digits (take 2 (drop 8 (strftime_date v))) = day v"
proof -
  from assms have y: "year v < 10000" and m: "month v < 100" and d: "day v < 100"
    by (simp_all add: valid_date_def)
  have yd: "year v div 1000 < 10" using y by simp
  have md: "month v div 10 < 10" using m by simp
  have dd: "day v div 10 < 10" using d by simp
  note s = strftime_date_def zfill_4 [OF y] zfill_2 [OF m] zfill_2 [OF d]
  show "matches_pattern ''YYYY-MM-DD'' (strftime_date v)"
    using yd md dd by (simp add: s is_digit_digit_char)
  show "nat_of_digits (take 4 (strftime_date v)) = year v"
    using yd by (simp add: s nat_of_digits_4 digits_4_sum)
  show "nat_of_digits (take 2 (drop 5 (strftime_date v))) = month v"
    using md by (simp add: s nat_of_digits_2)
  show "nat_of_digits (take 2 (drop 8 (strftime_date v))) = day v"
    using dd by (simp add: s nat_of_digits_2)
qed

lemma strftime_datetime_shape:
  assumes "valid_datetime v"
  shows "matches_pattern ''YYYY-MM-DD HH:MM'' (strftime_datetime v)"
    and "nat_of_digits (take 4 (strftime_datetime v)) = year v"
    and "nat_of_digits (take 2 (drop 5 (strftime_datetime v))) = month v"
    and "nat_of_digits (take 2 (drop 8 (strftime_datetime v))) = day v"
    and "nat_of_digits (take 2 (drop 11 (strftime_datetime v))) = hour v"
    and "nat_of_digits (take 2 (drop 14 (strftime_datetime v))) = minute v"
proof -
  from assms have y: "year v < 10000" and m: "month v < 100" and d: "day v < 100"
    and h: "hour v < 100" and mi: "minute v < 100"
    by (simp_all add: valid_datetime_def valid_date_def)
  have yd: "year v div 1000 < 10" using y by simp
  have md: "month v div 10 < 10" using m by simp
  have dd: "day v div 10 < 10" using d by simp
  have hd: "hour v div 10 < 10" using h by simp
  have mid: "minute v div 10 < 10" using mi by simp
  note s = strftime_datetime_def zfill_4 [OF y] zfill_2 [OF m] zfill_2 [OF d] zfill_2 [OF h]
    zfill_2 [OF mi]
  show "matches_pattern ''YYYY-MM-DD HH:MM'' (strftime_datetime v)"
    using yd md dd hd mid by (simp add: s is_digit_digit_char)
  show "nat_of_digits (take 4 (strftime_datetime v)) = year v"
    using yd by (simp add: s nat_of_digits_4 digits_4_sum)
  show "nat_of_digits (take 2 (drop 5 (strftime_datetime v))) = month v"
    using md by (simp add: s nat_of_digits_2)
  show "nat_of_digits (take 2 (drop 8 (strftime_datetime v))) = day v"
    using dd by (simp add: s nat_of_digits_2)
  show "nat_of_digits (take 2 (drop 11 (strftime_datetime v))) = hour v"
    using hd by (simp add: s nat_of_digits_2)
  show "nat_of_digits (take 2 (drop 14 (strftime_datetime v))) = minute v"
    using mid by (simp add: s nat_of_digits_2)
qed

lemma attribute_loop_sparse:
  "has_attrs inst props \<Longrightarrow>
   attribute_loop inst props data = Inr (data @ sparse_rows inst props)"
proof (induction props arbitrary: data)
  case Nil
  then show ?case by (simp add: sparse_rows_def)
next
  case (Cons fl props)
  obtain f l where fl: "fl = (f, l)" by (cases fl)
  from Cons.prems obtain v where v: "map_of inst f = Some v" and rest: "has_attrs inst props"
    by (auto simp add: has_attrs_def fl)
  have av: "attr_value inst f = v" by (simp add: attr_value_def v)
  show ?case
    using Cons.IH [OF rest] by (simp add: fl getattr_def v sparse_rows_def av)
qed

lemma attribute_to_table_data_sparse:
  "has_attrs inst props \<Longrightarrow> attribute_to_table_data inst props = Inr (sparse_rows inst props)"
  by (simp add: attribute_to_table_data_def attribute_loop_sparse)

lemma attribute_loop_error:
  "\<not> has_attrs inst props \<Longrightarrow> attribute_loop inst props data = Inl AttributeError"
proof (induction props arbitrary: data)
  case Nil
  then show ?case by (simp add: has_attrs_def)
next
  case (Cons fl props)
  obtain f l where fl: "fl = (f, l)" by (cases fl)
  show ?case
  proof (cases "map_of inst f")
    case None
    then show ?thesis by (simp add: fl getattr_def)
  next
    case (Some v)
    with Cons.prems have "\<not> has_attrs inst props" by (simp add: has_attrs_def fl)
    from Cons.IH [OF this] Some show ?thesis by (simp add: fl getattr_def)
  qed
qed

text \<open>
  Claim C5. For an instance that has every listed field as an attribute,
  \<open>_attribute_to_table_data\<close> returns the sparse rows: one row \<open>[label + ':', formatted
  value]\<close> for each truthy field, in the order of the list, and none for a falsy field
  (for a field that is not an attribute \<open>getattr\<close> raises). A datetime is formatted as
  \<open>YYYY-MM-DD HH:MM\<close> and a date as \<open>YYYY-MM-DD\<close>, the digits being the year, month, day,
  hour and minute.
\<close>

theorem attribute_to_table_data_rows:
  "(has_attrs inst props \<longrightarrow> attribute_to_table_data inst props = Inr (sparse_rows inst props))
   \<and> (\<not> has_attrs inst props \<longrightarrow> attribute_to_table_data inst props = Inl AttributeError)
   \<and> format_value (PDatetime v) = PStr (strftime_datetime v)
   \<and> (valid_datetime v \<longrightarrow>
        matches_pattern ''YYYY-MM-DD HH:MM'' (strftime_datetime v)
        \<and> nat_of_digits (take 4 (strftime_datetime v)) = year v
        \<and> nat_of_digits (take 2 (drop 5 (strftime_datetime v))) = month v
        \<and> nat_of_digits (take 2 (drop 8 (strftime_datetime v))) = day v
        \<and> nat_of_digits (take 2 (drop 11 (strftime_datetime v))) = hour v
        \<and> nat_of_digits (take 2 (drop 14 (strftime_datetime v))) = minute v)
   \<and> format_value (PDate d) = PStr (strftime_date d)
   \<and> (valid_date d \<longrightarrow>
        matches_pattern ''YYYY-MM-DD'' (strftime_date d)
        \<and> nat_of_digits (take 4 (strftime_date d)) = year d
        \<and> nat_of_digits (take 2 (drop 5 (strftime_date d))) = month d
        \<and> nat_of_digits (take 2 (drop 8 (strftime_date d))) = day d)"
proof (intro conjI impI)
  show "has_attrs inst props \<Longrightarrow> attribute_to_table_data inst props = Inr (sparse_rows inst props)"
    by (rule attribute_to_table_data_sparse)
  show "\<not> has_attrs inst props \<Longrightarrow> attribute_to_table_data inst props = Inl AttributeError"
    by (simp add: attribute_to_table_data_def attribute_loop_error)
qed (simp_all add: strftime_datetime_shape strftime_date_shape)

text \<open>
  The theorem at a service provider with three of its seven fields populated, and at an
  invoice date.
\<close>

theorem attribute_to_table_data_rows_witness:
  "has_attrs
     [(''name'', PStr ''ACME''), (''street'', PNone), (''city'', PStr []),
      (''state'', PNone), (''country'', PStr ''FR''), (''post_code'', PNone),
      (''vat_tax_number'', PStr ''X1'')] service_provider_props
   \<and> attribute_to_table_data
       [(''name'', PStr ''ACME''), (''street'', PNone), (''city'', PStr []),
        (''state'', PNone), (''country'', PStr ''FR''), (''post_code'', PNone),
        (''vat_tax_number'', PStr ''X1'')] service_provider_props
     = Inr [[CVal (PStr ''Name:''), CVal (PStr ''ACME'')],
            [CVal (PStr ''Country:''), CVal (PStr ''FR'')],
            [CVal (PStr ''Vat/Tax number:''), CVal (PStr ''X1'')]]
   \<and> valid_datetime \<lparr>year = 2024, month = 3, day = 7, hour = 9, minute = 5, second = 0\<rparr>
   \<and> matches_pattern ''YYYY-MM-DD HH:MM''
       (strftime_datetime \<lparr>year = 2024, month = 3, day = 7, hour = 9, minute = 5, second = 0\<rparr>)
   \<and> valid_date \<lparr>year = 2024, month = 3, day = 7\<rparr>
   \<and> matches_pattern ''YYYY-MM-DD'' (strftime_date \<lparr>year = 2024, month = 3, day = 7\<rparr>)"
  using attribute_to_table_data_rows
    [of "[(''name'', PStr ''ACME''), (''street'', PNone), (''city'', PStr []),
          (''state'', PNone), (''country'', PStr ''FR''), (''post_code'', PNone),
          (''vat_tax_number'', PStr ''X1'')]"
        service_provider_props
        "\<lparr>year = 2024, month = 3, day = 7, hour = 9, minute = 5, second = 0\<rparr>"
        "\<lparr>year = 2024, month = 3, day = 7\<rparr>"]
  by (simp add: has_attrs_def service_provider_props_def sparse_rows_def attr_value_def
        valid_datetime_def valid_date_def)

section \<open>Adding items and transactions\<close>

text \<open>
  Claim C7. An argument of \<open>add_item\<close> that is not an \<open>Item\<close> leaves the document as it
  is, and so does an argument of \<open>add_transaction\<close> that is not a \<open>Transaction\<close>; neither
  method has a failing branch.
\<close>

theorem add_wrong_kind_ignored:
  "(\<not> isinstance_Item obj \<longrightarrow> add_item self obj = self)
   \<and> (\<not> isinstance_Transaction obj \<longrightarrow> add_transaction self obj = self)"
  by (simp add: add_item_def add_transaction_def)

theorem add_wrong_kind_ignored_witness:
  "\<not> isinstance_Item (ObjOther (PStr ''item''))
   \<and> add_item (init default_precision) (ObjOther (PStr ''item'')) = init default_precision
   \<and> \<not> isinstance_Transaction ObjNone
   \<and> add_transaction (init default_precision) ObjNone = init default_precision"
  using add_wrong_kind_ignored [of "ObjOther (PStr ''item'')" "init default_precision"]
    add_wrong_kind_ignored [of ObjNone "init default_precision"]
  by simp

end
